theory Spec2Isabelle
  imports Main
begin

section \<open>Strings, errors and the external collaborators\<close>

text \<open>
  The lookup code is the Python of \<^verbatim>\<open>JAPALEARN_IMPROVEMENTS_CHECKLIST.md\<close>:
  \<^verbatim>\<open>JapaneseFallbackGenerator\<close> (Part 8), \<^verbatim>\<open>Language.get_word_info\<close> (Part 5),
  \<^verbatim>\<open>LanguageProfile.get_word_info\<close> (Part 3) and \<^verbatim>\<open>JapaneseLanguage.get_word_info\<close>
  (item 3 of the critical issues).

  A Python \<^verbatim>\<open>str\<close> is a sequence of Unicode code points: \<^verbatim>\<open>len\<close> counts code points and
  \<^verbatim>\<open>ord(c)\<close> reads one. A string is therefore a list of naturals, and \<^verbatim>\<open>ord\<close> is the
  identity.
\<close>

type_synonym ustr = "nat list"

text \<open>
  None of the functions below contains a \<^verbatim>\<open>try\<close>: an exception raised by the tokenizer,
  by the converter or by a dictionary leaves every enclosing function. Each call of a
  collaborator hence returns an error or a value, and each caller passes the error on.
\<close>

datatype error = AnalyzerError | ConverterError | SourceError | IndexError

text \<open>A morpheme of the tokenizer; the code reads \<^verbatim>\<open>tokens[0].dictionary_form()\<close> only.\<close>

record token =
  surface :: ustr
  dictionary_form :: ustr

text \<open>
  \<^verbatim>\<open>self.sudachi.tokenize(word, Tokenizer.SplitMode.C)\<close>, \<^verbatim>\<open>self.kakasi.convert(text)\<close>
  and the helper \<^verbatim>\<open>hiragana_to_katakana\<close> are not defined in the repository: the
  generator takes them as parameters.
\<close>

record fallback_generator =
  sudachi :: "ustr \<Rightarrow> error + token list"
  kakasi :: "ustr \<Rightarrow> error + ustr"
  kana_helper :: "ustr \<Rightarrow> error + ustr"

section \<open>JapaneseFallbackGenerator\<close>

text \<open>
  \<^verbatim>\<open>
  async def get_root_form(self, word):
      tokens = self.sudachi.tokenize(word, Tokenizer.SplitMode.C)
      if tokens:
          return tokens[0].dictionary_form()
      return word
  \<close>
\<close>

definition get_root_form :: "fallback_generator \<Rightarrow> ustr \<Rightarrow> error + ustr" where
  "get_root_form self word =
     (case sudachi self word of
        Inl e \<Rightarrow> Inl e
      | Inr tokens \<Rightarrow>
          (case tokens of [] \<Rightarrow> Inr word | t # _ \<Rightarrow> Inr (dictionary_form t)))"

text \<open>
  \<^verbatim>\<open>
  async def to_hiragana(self, text):
      return self.kakasi.convert(text)

  async def to_katakana(self, text):
      hiragana = await self.to_hiragana(text)
      return hiragana_to_katakana(hiragana)
  \<close>
\<close>

definition to_hiragana :: "fallback_generator \<Rightarrow> ustr \<Rightarrow> error + ustr" where
  "to_hiragana self txt = kakasi self txt"

definition to_katakana :: "fallback_generator \<Rightarrow> ustr \<Rightarrow> error + ustr" where
  "to_katakana self txt =
     (case to_hiragana self txt of
        Inl e \<Rightarrow> Inl e
      | Inr hiragana \<Rightarrow> kana_helper self hiragana)"

text \<open>
  \<^verbatim>\<open>
  def is_romaji(self, text):
      return all(ord(c) < 128 for c in text)
  def is_hiragana(self, text):
      return all(U+3041 <= c <= U+309F for c in text if ord(c) > 127)
  def is_katakana(self, text):
      return all(U+30A1 <= c <= U+30FF for c in text if ord(c) > 127)
  \<close>
  The source writes the bounds as one-character string literals; the comparison of
  one-character strings is the comparison of their code points.
\<close>

definition is_romaji :: "ustr \<Rightarrow> bool" where
  "is_romaji txt = list_all (\<lambda>c. c < 128) txt"

definition is_hiragana :: "ustr \<Rightarrow> bool" where
  "is_hiragana txt = list_all (\<lambda>c. 0x3041 \<le> c \<and> c \<le> 0x309f) (filter (\<lambda>c. 127 < c) txt)"

definition is_katakana :: "ustr \<Rightarrow> bool" where
  "is_katakana txt = list_all (\<lambda>c. 0x30a1 \<le> c \<and> c \<le> 0x30ff) (filter (\<lambda>c. 127 < c) txt)"

text \<open>\<^verbatim>\<open>word.endswith(suffix)\<close> and the slice \<^verbatim>\<open>word[:-n]\<close> (which is empty for \<^verbatim>\<open>n = 0\<close>).\<close>

definition endswith :: "ustr \<Rightarrow> ustr \<Rightarrow> bool" where
  "endswith word suffix =
     (length suffix \<le> length word \<and> drop (length word - length suffix) word = suffix)"

definition slice_to_minus :: "ustr \<Rightarrow> nat \<Rightarrow> ustr" where
  "slice_to_minus word n = (if n = 0 then [] else take (length word - n) word)"

text \<open>
  The list of the suffix loop, as code points: so-u-ni (U+305D U+3046 U+306B),
  te-i-ru (U+3066 U+3044 U+308B), ta (U+305F) and da (U+3060).
\<close>

definition suffixes :: "ustr list" where
  "suffixes = [[0x305d, 0x3046, 0x306b], [0x3066, 0x3044, 0x308b], [0x305f], [0x3060]]"

text \<open>
  \<^verbatim>\<open>
  for suffix in [...]:
      if word.endswith(suffix) and len(word) > len(suffix) + 1:
          terms.append(word[:-len(suffix)])
  \<close>
  The loop has no \<^verbatim>\<open>break\<close>: it visits every suffix of the list.
\<close>

fun strip_suffixes :: "ustr \<Rightarrow> ustr list \<Rightarrow> ustr list \<Rightarrow> ustr list" where
  "strip_suffixes word [] terms = terms"
| "strip_suffixes word (suffix # rest) terms =
     strip_suffixes word rest
       (if endswith word suffix \<and> length word > length suffix + 1
        then terms @ [slice_to_minus word (length suffix)]
        else terms)"

text \<open>
  The \<^verbatim>\<open>if is_romaji / elif is_hiragana / elif is_katakana\<close> block of
  \<^verbatim>\<open>get_fallback_terms\<close>, with the calls in the order of the source: both conversions,
  the two appends, then the two root forms.
\<close>

definition kana_conversions :: "fallback_generator \<Rightarrow> ustr \<Rightarrow> ustr list \<Rightarrow> error + ustr list" where
  "kana_conversions self word terms =
     (if is_romaji word then
        (case to_hiragana self word of Inl e \<Rightarrow> Inl e | Inr hiragana \<Rightarrow>
        (case to_katakana self word of Inl e \<Rightarrow> Inl e | Inr katakana \<Rightarrow>
        (case get_root_form self hiragana of Inl e \<Rightarrow> Inl e | Inr hiragana_root \<Rightarrow>
        (case get_root_form self katakana of Inl e \<Rightarrow> Inl e | Inr katakana_root \<Rightarrow>
           Inr (terms @ [hiragana, katakana]
                  @ (if hiragana_root \<noteq> hiragana then [hiragana_root] else [])
                  @ (if katakana_root \<noteq> katakana then [katakana_root] else []))))))
      else if is_hiragana word then
        (case to_katakana self word of Inl e \<Rightarrow> Inl e | Inr katakana \<Rightarrow>
           Inr (terms @ [katakana]))
      else if is_katakana word then
        (case to_hiragana self word of Inl e \<Rightarrow> Inl e | Inr hiragana \<Rightarrow>
           Inr (terms @ [hiragana]))
      else Inr terms)"

text \<open>
  \<^verbatim>\<open>
  async def get_fallback_terms(self, word):
      terms = [word]
      root = await self.get_root_form(word)
      if root != word:
          terms.append(root)
      ... kana conversions ...
      ... suffix loop ...
      return terms
  \<close>
\<close>

definition get_fallback_terms :: "fallback_generator \<Rightarrow> ustr \<Rightarrow> error + ustr list" where
  "get_fallback_terms self word =
     (case get_root_form self word of
        Inl e \<Rightarrow> Inl e
      | Inr root \<Rightarrow>
          (case kana_conversions self word (if root \<noteq> word then [word, root] else [word]) of
             Inl e \<Rightarrow> Inl e
           | Inr terms \<Rightarrow> Inr (strip_suffixes word suffixes terms)))"

section \<open>Dictionaries and the lookup\<close>

text \<open>
  \<^verbatim>\<open>DictionaryEntry(word, reading: Optional[str], definition)\<close> and the abstract
  \<^verbatim>\<open>DictionaryFormat\<close>, of which the lookup calls \<^verbatim>\<open>search\<close> only.
\<close>

record dictionary_entry =
  entry_word :: ustr
  entry_reading :: "ustr option"
  entry_definition :: string

record dictionary_format =
  search :: "ustr \<Rightarrow> error + dictionary_entry list"

text \<open>\<^verbatim>\<open>WordInfo(word=word, definition="Not found")\<close>: the two fields the code sets.\<close>

record word_info =
  info_word :: ustr
  info_definition :: string

text \<open>What a lookup returns: the search result it found, or the \<^verbatim>\<open>WordInfo\<close>.\<close>

datatype 'a lookup = Found 'a | Info word_info

text \<open>
  The nested loop shared by the three \<^verbatim>\<open>get_word_info\<close>:
  \<^verbatim>\<open>
  for term in terms:
      for dict_format in self.dictionaries:
          result = await dict_format.search(term)
          if result:
              return ...
  \<close>
  \<open>probe_dictionaries\<close> is the inner loop for one term, \<open>probe_terms\<close> the outer loop;
  \<open>None\<close> says that the loop ended without a \<^verbatim>\<open>return\<close>. A list is true in Python when
  it is not empty.
\<close>

fun probe_dictionaries :: "dictionary_format list \<Rightarrow> ustr \<Rightarrow> error + dictionary_entry list option" where
  "probe_dictionaries [] term = Inr None"
| "probe_dictionaries (dict_format # rest) term =
     (case search dict_format term of
        Inl e \<Rightarrow> Inl e
      | Inr result \<Rightarrow>
          if result \<noteq> [] then Inr (Some result) else probe_dictionaries rest term)"

fun probe_terms :: "dictionary_format list \<Rightarrow> ustr list \<Rightarrow> error + dictionary_entry list option" where
  "probe_terms dictionaries [] = Inr None"
| "probe_terms dictionaries (term # rest) =
     (case probe_dictionaries dictionaries term of
        Inl e \<Rightarrow> Inl e
      | Inr (Some result) \<Rightarrow> Inr (Some result)
      | Inr None \<Rightarrow> probe_terms dictionaries rest)"

text \<open>
  \<^verbatim>\<open>Language.get_word_info\<close> and \<^verbatim>\<open>JapaneseLanguage.get_word_info\<close>: the abstract
  method \<^verbatim>\<open>get_fallback_terms\<close> is the parameter \<open>fallback\<close>; a hit returns
  \<^verbatim>\<open>result\<close>, the end of the loops
  \<^verbatim>\<open>WordInfo(word=word, definition="Not found")\<close>.
\<close>

definition get_word_info ::
  "(ustr \<Rightarrow> error + ustr list) \<Rightarrow> dictionary_format list \<Rightarrow> ustr
     \<Rightarrow> error + dictionary_entry list lookup" where
  "get_word_info fallback dictionaries word =
     (case fallback word of
        Inl e \<Rightarrow> Inl e
      | Inr terms \<Rightarrow>
          (case probe_terms dictionaries terms of
             Inl e \<Rightarrow> Inl e
           | Inr (Some result) \<Rightarrow> Inr (Found result)
           | Inr None \<Rightarrow> Inr (Info \<lparr>info_word = word, info_definition = ''Not found''\<rparr>)))"

text \<open>
  \<^verbatim>\<open>LanguageProfile.get_word_info\<close>: the terms come from
  \<^verbatim>\<open>self.tokenizer.get_search_terms(word)\<close> and a hit returns \<^verbatim>\<open>results[0]\<close>
  (an \<^verbatim>\<open>IndexError\<close> on an empty list, which the test \<^verbatim>\<open>if results\<close> excludes).
\<close>

definition profile_get_word_info ::
  "(ustr \<Rightarrow> error + ustr list) \<Rightarrow> dictionary_format list \<Rightarrow> ustr
     \<Rightarrow> error + dictionary_entry lookup" where
  "profile_get_word_info get_search_terms dictionaries word =
     (case get_search_terms word of
        Inl e \<Rightarrow> Inl e
      | Inr fallback_terms \<Rightarrow>
          (case probe_terms dictionaries fallback_terms of
             Inl e \<Rightarrow> Inl e
           | Inr (Some results) \<Rightarrow>
               (case results of
                  [] \<Rightarrow> Inl IndexError
                | first # _ \<Rightarrow> Inr (Found first))
           | Inr None \<Rightarrow> Inr (Info \<lparr>info_word = word, info_definition = ''Not found''\<rparr>)))"

text \<open>The Japanese language: the lookup over the terms of the fallback generator.\<close>

definition japanese_get_word_info ::
  "fallback_generator \<Rightarrow> dictionary_format list \<Rightarrow> ustr \<Rightarrow> error + dictionary_entry list lookup" where
  "japanese_get_word_info self dictionaries word =
     get_word_info (get_fallback_terms self) dictionaries word"

section \<open>The kana conversions\<close>

text \<open>
  Modelled from the spec: the helper \<^verbatim>\<open>hiragana_to_katakana\<close>, which \<^verbatim>\<open>to_katakana\<close> calls and
  the repository does not define. The spec gives the hiragana block U+3041 to U+309F and
  the katakana block U+30A1 to U+30FF and calls the conversion between them an exact,
  reversible code-point shift; the blocks lie 0x60 apart. A code point outside the
  hiragana block stays as it is.
\<close>

definition hiragana_to_katakana :: "ustr \<Rightarrow> ustr" where
  "hiragana_to_katakana txt = map (\<lambda>c. if 0x3041 \<le> c \<and> c \<le> 0x309f then c + 0x60 else c) txt"

text \<open>
  Modelled from the spec: the conversion to hiragana behind \<^verbatim>\<open>self.kakasi.convert\<close>, which
  the repository does not define either. It is the same shift in the other direction: a
  code point of the katakana block moves down by 0x60, any other stays as it is.
\<close>

definition katakana_to_hiragana :: "ustr \<Rightarrow> ustr" where
  "katakana_to_hiragana txt = map (\<lambda>c. if 0x30a1 \<le> c \<and> c \<le> 0x30ff then c - 0x60 else c) txt"

text \<open>A generator whose two converters are these shifts; the tokenizer stays a parameter.\<close>

definition shift_generator :: "(ustr \<Rightarrow> error + token list) \<Rightarrow> fallback_generator" where
  "shift_generator tokenize =
     \<lparr>sudachi = tokenize,
      kakasi = (\<lambda>txt. Inr (katakana_to_hiragana txt)),
      kana_helper = (\<lambda>txt. Inr (hiragana_to_katakana txt))\<rparr>"

section \<open>Sample data\<close>

text \<open>
  Three inflected words and what a tokenizer in split mode C makes of them:
  shizuka-da (U+9759 U+304B U+3060, "is quiet") is the adjective shizuka and the copula
  da; hashitta (U+8D70 U+3063 U+305F, "ran") is the verb hashiru (U+8D70 U+308B) and the
  auxiliary ta. For every other word the sample tokenizer returns no token.
\<close>

definition shizuka_da :: ustr where
  "shizuka_da = [0x9759, 0x304b, 0x3060]"

definition shizuka :: ustr where
  "shizuka = [0x9759, 0x304b]"

definition hashitta :: ustr where
  "hashitta = [0x8d70, 0x3063, 0x305f]"

definition hashiru :: ustr where
  "hashiru = [0x8d70, 0x308b]"

definition sample_sudachi :: "ustr \<Rightarrow> error + token list" where
  "sample_sudachi word =
     (if word = shizuka_da then
        Inr [\<lparr>surface = shizuka, dictionary_form = shizuka\<rparr>,
             \<lparr>surface = [0x3060], dictionary_form = [0x3060]\<rparr>]
      else if word = hashitta then
        Inr [\<lparr>surface = [0x8d70, 0x3063], dictionary_form = hashiru\<rparr>,
             \<lparr>surface = [0x305f], dictionary_form = [0x305f]\<rparr>]
      else Inr [])"

definition silent_sudachi :: "ustr \<Rightarrow> error + token list" where
  "silent_sudachi word = Inr []"

definition failing_sudachi :: "ustr \<Rightarrow> error + token list" where
  "failing_sudachi word = Inl AnalyzerError"

text \<open>Dictionaries over a finite table, one that holds nothing and one that raises.\<close>

definition table_dictionary :: "(ustr \<times> dictionary_entry list) list \<Rightarrow> dictionary_format" where
  "table_dictionary table =
     \<lparr>search = (\<lambda>term. Inr (case map_of table term of None \<Rightarrow> [] | Some entries \<Rightarrow> entries))\<rparr>"

definition entry_a :: dictionary_entry where
  "entry_a = \<lparr>entry_word = hashiru, entry_reading = Some [0x306f, 0x3057, 0x308b],
              entry_definition = ''to run''\<rparr>"

definition entry_b :: dictionary_entry where
  "entry_b = \<lparr>entry_word = hashiru, entry_reading = None,
              entry_definition = ''to dash''\<rparr>"

definition dictionary_a :: dictionary_format where
  "dictionary_a = table_dictionary [(hashiru, [entry_a])]"

definition dictionary_b :: dictionary_format where
  "dictionary_b = table_dictionary [(hashiru, [entry_b]), (shizuka, [])]"

definition empty_dictionary :: dictionary_format where
  "empty_dictionary = table_dictionary []"

definition broken_dictionary :: dictionary_format where
  "broken_dictionary = \<lparr>search = (\<lambda>term. Inl SourceError)\<rparr>"

text \<open>
  A second generator, for the word itta (U+3044 U+3063 U+305F, "went"), the example of
  the checklist: its tokenizer gives itta the dictionary form iku (U+3044 U+304F) and
  its converter turns the romaji "iku" into that hiragana; elsewhere the converter is
  the shift. The katakana word is ka-ta-ka-na.
\<close>

definition itta :: ustr where
  "itta = [0x3044, 0x3063, 0x305f]"

definition iku :: ustr where
  "iku = [0x3044, 0x304f]"

definition romaji_iku :: ustr where
  "romaji_iku = [0x69, 0x6b, 0x75]"

definition katakana_word :: ustr where
  "katakana_word = [0x30ab, 0x30bf, 0x30ab, 0x30ca]"

definition iku_generator :: fallback_generator where
  "iku_generator =
     \<lparr>sudachi = (\<lambda>word.
        if word = itta then
          Inr [\<lparr>surface = [0x3044, 0x3063], dictionary_form = iku\<rparr>,
               \<lparr>surface = [0x305f], dictionary_form = [0x305f]\<rparr>]
        else Inr []),
      kakasi = (\<lambda>txt. if txt = romaji_iku then Inr iku else Inr (katakana_to_hiragana txt)),
      kana_helper = (\<lambda>txt. Inr (hiragana_to_katakana txt))\<rparr>"

section \<open>The suffix loop\<close>

text \<open>The stems that the suffix loop appends for a word, in the order of the list.\<close>

definition stems :: "ustr \<Rightarrow> ustr list \<Rightarrow> ustr list" where
  "stems word sfx =
     map (\<lambda>s. slice_to_minus word (length s))
       (filter (\<lambda>s. endswith word s \<and> length word > length s + 1) sfx)"

lemma strip_suffixes_stems: "strip_suffixes word sfx terms = terms @ stems word sfx"
  by (induction sfx arbitrary: terms) (auto simp: stems_def)

lemma endswith_last: "endswith word s \<Longrightarrow> s \<noteq> [] \<Longrightarrow> last word = last s"
  unfolding endswith_def
  by (metis last_drop drop_eq_Nil not_le)

lemma endswith_last_mem: "endswith word s \<Longrightarrow> s \<noteq> [] \<Longrightarrow> last s \<in> set word"
  unfolding endswith_def
  by (metis in_set_dropD last_in_set)

lemma one_match: "length (filter (endswith word) suffixes) \<le> 1"
  by (auto simp: suffixes_def dest!: endswith_last)

lemma romaji_no_suffix: "is_romaji word \<Longrightarrow> s \<in> set suffixes \<Longrightarrow> \<not> endswith word s"
  by (auto simp: suffixes_def is_romaji_def list_all_iff dest!: endswith_last_mem)

lemma filter_conj_le: "length (filter (\<lambda>s. P s \<and> Q s) xs) \<le> length (filter P xs)"
  by (induction xs) auto

lemma stems_le_one: "length (stems word suffixes) \<le> 1"
  unfolding stems_def length_map
  using filter_conj_le [of "endswith word" _ suffixes] one_match [of word] by (rule order_trans)

lemma stems_romaji: "is_romaji word \<Longrightarrow> stems word suffixes = []"
  by (simp add: stems_def filter_empty_conv romaji_no_suffix)

text \<open>
  C10. Whatever the word, at most one suffix of the list can be an ending of it, since
  the four suffixes end in four different characters; the suffix loop therefore appends
  at most one stem.
\<close>

theorem at_most_one_suffix_matches:
  "length (filter (endswith word) suffixes) \<le> 1
   \<and> distinct (map last suffixes)
   \<and> length (strip_suffixes word suffixes terms) \<le> length terms + 1"
  using one_match [of word] stems_le_one [of word]
  by (simp add: strip_suffixes_stems) (simp add: suffixes_def)

theorem at_most_one_suffix_matches_witness:
  "filter (endswith [0x8d70, 0x3063, 0x305f]) suffixes = [[0x305f]]
   \<and> length (filter (endswith [0x8d70, 0x3063, 0x305f]) suffixes) \<le> 1
   \<and> length (strip_suffixes [0x8d70, 0x3063, 0x305f] suffixes [[0x8d70, 0x3063, 0x305f]]) \<le> 2"
  using at_most_one_suffix_matches [of "[0x8d70, 0x3063, 0x305f]" "[[0x8d70, 0x3063, 0x305f]]"]
  by (simp add: suffixes_def endswith_def)

section \<open>The fallback terms\<close>

lemma kana_conversions_length:
  "kana_conversions self word terms = Inr terms' \<Longrightarrow>
     length terms' \<le> length terms + (if is_romaji word then 4 else 1)"
  by (auto simp: kana_conversions_def split: if_splits sum.splits)

lemma kana_conversions_prefix:
  "kana_conversions self word terms = Inr terms' \<Longrightarrow> \<exists>others. terms' = terms @ others"
  by (auto simp: kana_conversions_def split: if_splits sum.splits)

lemma get_fallback_terms_Inr:
  assumes "get_fallback_terms self word = Inr terms"
  obtains root kept where
    "get_root_form self word = Inr root"
    "kana_conversions self word (if root \<noteq> word then [word, root] else [word]) = Inr kept"
    "terms = kept @ stems word suffixes"
  using assms
  by (auto simp: get_fallback_terms_def strip_suffixes_stems split: sum.splits)

lemma fallback_terms_le_6:
  assumes "get_fallback_terms self word = Inr terms"
  shows "length terms \<le> 6"
proof -
  from assms obtain root kept where
    k: "kana_conversions self word (if root \<noteq> word then [word, root] else [word]) = Inr kept"
    and t: "terms = kept @ stems word suffixes"
    by (rule get_fallback_terms_Inr)
  show ?thesis
  proof (cases "is_romaji word")
    case True
    with kana_conversions_length [OF k] have "length kept \<le> 6"
      by (simp split: if_splits)
    with True t show ?thesis
      by (simp add: stems_romaji)
  next
    case False
    with kana_conversions_length [OF k] have "length kept \<le> 3"
      by (simp split: if_splits)
    with stems_le_one [of word] t show ?thesis
      by simp
  qed
qed

lemma fallback_terms_head:
  assumes "get_fallback_terms self word = Inr terms"
  shows "\<exists>others. terms = word # others"
proof -
  from assms obtain root kept where
    k: "kana_conversions self word (if root \<noteq> word then [word, root] else [word]) = Inr kept"
    and t: "terms = kept @ stems word suffixes"
    by (rule get_fallback_terms_Inr)
  from kana_conversions_prefix [OF k] obtain others
    where "kept = (if root \<noteq> word then [word, root] else [word]) @ others"
    by blast
  with t show ?thesis
    by (simp split: if_splits)
qed

text \<open>
  The generator returns a list whenever none of its collaborators raises.
\<close>

lemma get_root_form_returns:
  assumes "\<forall>w. \<exists>tokens. sudachi self w = Inr tokens"
  shows "\<exists>root. get_root_form self word = Inr root"
proof -
  from assms obtain tokens where "sudachi self word = Inr tokens" by blast
  then show ?thesis
    by (cases tokens) (simp_all add: get_root_form_def)
qed

lemma to_katakana_returns:
  assumes "\<forall>w. \<exists>h. kakasi self w = Inr h" and "\<forall>w. \<exists>k. kana_helper self w = Inr k"
  shows "\<exists>k. to_katakana self word = Inr k"
proof -
  from assms(1) obtain h where h: "kakasi self word = Inr h" by blast
  from assms(2) obtain k where "kana_helper self h = Inr k" by blast
  with h show ?thesis
    by (simp add: to_katakana_def to_hiragana_def)
qed

lemma kana_conversions_returns:
  assumes tok: "\<forall>w. \<exists>tokens. sudachi self w = Inr tokens"
      and conv: "\<forall>w. \<exists>h. kakasi self w = Inr h"
      and shift: "\<forall>w. \<exists>k. kana_helper self w = Inr k"
  shows "\<exists>kept. kana_conversions self word terms = Inr kept"
proof -
  from conv obtain h where h: "to_hiragana self word = Inr h"
    unfolding to_hiragana_def by blast
  from to_katakana_returns [OF conv shift] obtain k where k: "to_katakana self word = Inr k"
    by blast
  from get_root_form_returns [OF tok] obtain hr where hr: "get_root_form self h = Inr hr"
    by blast
  from get_root_form_returns [OF tok] obtain kr where kr: "get_root_form self k = Inr kr"
    by blast
  from h k hr kr show ?thesis
    by (simp add: kana_conversions_def)
qed

lemma get_fallback_terms_returns:
  assumes tok: "\<forall>w. \<exists>tokens. sudachi self w = Inr tokens"
      and conv: "\<forall>w. \<exists>h. kakasi self w = Inr h"
      and shift: "\<forall>w. \<exists>k. kana_helper self w = Inr k"
  shows "\<exists>terms. get_fallback_terms self word = Inr terms"
proof -
  from get_root_form_returns [OF tok] obtain root where r: "get_root_form self word = Inr root"
    by blast
  from kana_conversions_returns [OF tok conv shift] obtain kept where
    "kana_conversions self word (if root \<noteq> word then [word, root] else [word]) = Inr kept"
    by blast
  with r show ?thesis
    by (simp add: get_fallback_terms_def)
qed

text \<open>
  C2, as amended. Whenever the generator returns (and it does when no collaborator
  raises, by \<open>get_fallback_terms_returns\<close>), it returns at most 8 terms (at most 6, by
  \<open>fallback_terms_le_6\<close>) and the original term is the first of them. The original term
  may occur again further down the list.
\<close>

theorem fallback_terms_bounded:
  assumes "get_fallback_terms self word = Inr terms"
  shows "length terms \<le> 8 \<and> terms \<noteq> [] \<and> hd terms = word"
  using fallback_terms_le_6 [OF assms] fallback_terms_head [OF assms] by auto

lemmas eval_defs = get_fallback_terms_def get_root_form_def kana_conversions_def
  to_hiragana_def to_katakana_def is_romaji_def is_hiragana_def is_katakana_def
  endswith_def slice_to_minus_def suffixes_def shift_generator_def
  katakana_to_hiragana_def hiragana_to_katakana_def
  sample_sudachi_def silent_sudachi_def failing_sudachi_def
  shizuka_da_def shizuka_def hashitta_def hashiru_def

lemmas dictionary_defs = table_dictionary_def dictionary_a_def dictionary_b_def
  empty_dictionary_def broken_dictionary_def entry_a_def entry_b_def

lemmas iku_defs = get_fallback_terms_def get_root_form_def kana_conversions_def
  to_hiragana_def to_katakana_def is_romaji_def is_hiragana_def is_katakana_def
  endswith_def slice_to_minus_def suffixes_def stems_def
  katakana_to_hiragana_def hiragana_to_katakana_def
  iku_generator_def itta_def iku_def romaji_iku_def katakana_word_def shizuka_da_def shizuka_def

theorem fallback_terms_bounded_witness:
  "get_fallback_terms (shift_generator sample_sudachi) hashitta
     = Inr [hashitta, hashiru, [0x8d70, 0x3063]]
   \<and> length [hashitta, hashiru, [0x8d70, 0x3063]] \<le> 8
   \<and> [hashitta, hashiru, [0x8d70, 0x3063]] \<noteq> []
   \<and> hd [hashitta, hashiru, [0x8d70, 0x3063]] = hashitta"
proof -
  have h: "get_fallback_terms (shift_generator sample_sudachi) hashitta
             = Inr [hashitta, hashiru, [0x8d70, 0x3063]]"
    by (simp add: eval_defs)
  show ?thesis using h fallback_terms_bounded [OF h] by simp
qed

text \<open>
  C2 as stated fails: for the empty term, and for the ASCII term "ok" (U+006F U+006B),
  the conversions return the term itself and the original term is in the list three
  times.
\<close>

theorem original_repeated_counterexample:
  "get_fallback_terms (shift_generator silent_sudachi) [] = Inr [[], [], []]
   \<and> get_fallback_terms (shift_generator silent_sudachi) [0x6f, 0x6b]
       = Inr [[0x6f, 0x6b], [0x6f, 0x6b], [0x6f, 0x6b]]"
  by (simp add: eval_defs)

text \<open>
  C4 as stated fails: for shizuka-da the root form of the first token and the stem left
  by stripping da are the same string, and both are in the list.
\<close>

theorem duplicate_terms_counterexample:
  "get_fallback_terms (shift_generator sample_sudachi) shizuka_da
     = Inr [shizuka_da, shizuka, shizuka]
   \<and> \<not> distinct [shizuka_da, shizuka, shizuka]"
  by (simp add: eval_defs)

lemma kana_conversions_acc:
  "kana_conversions self word terms =
     (case kana_conversions self word [] of Inl e \<Rightarrow> Inl e | Inr kana \<Rightarrow> Inr (terms @ kana))"
  by (simp add: kana_conversions_def split: sum.splits)

lemma kana_conversions_romaji:
  assumes kc: "kana_conversions self word [] = Inr kana" and rom: "is_romaji word"
  shows "\<exists>h k hr kr. to_hiragana self word = Inr h \<and> to_katakana self word = Inr k
           \<and> get_root_form self h = Inr hr \<and> get_root_form self k = Inr kr
           \<and> kana = [h, k] @ (if hr \<noteq> h then [hr] else []) @ (if kr \<noteq> k then [kr] else [])"
proof -
  from kc rom obtain h where h: "to_hiragana self word = Inr h"
    by (cases "to_hiragana self word") (simp_all add: kana_conversions_def)
  from kc rom h obtain k where k: "to_katakana self word = Inr k"
    by (cases "to_katakana self word") (simp_all add: kana_conversions_def)
  from kc rom h k obtain hr where hr: "get_root_form self h = Inr hr"
    by (cases "get_root_form self h") (simp_all add: kana_conversions_def)
  from kc rom h k hr obtain kr where kr: "get_root_form self k = Inr kr"
    by (cases "get_root_form self k") (simp_all add: kana_conversions_def)
  from kc rom h k hr kr
  have "kana = [h, k] @ (if hr \<noteq> h then [hr] else []) @ (if kr \<noteq> k then [kr] else [])"
    by (simp add: kana_conversions_def)
  with h k hr kr show ?thesis
    by blast
qed

lemma kana_conversions_hiragana:
  assumes kc: "kana_conversions self word [] = Inr kana"
      and "\<not> is_romaji word" and "is_hiragana word"
  shows "\<exists>k. to_katakana self word = Inr k \<and> kana = [k]"
  using assms
  by (cases "to_katakana self word") (simp_all add: kana_conversions_def)

lemma kana_conversions_katakana:
  assumes kc: "kana_conversions self word [] = Inr kana"
      and "\<not> is_romaji word" and "\<not> is_hiragana word" and "is_katakana word"
  shows "\<exists>h. to_hiragana self word = Inr h \<and> kana = [h]"
  using assms
  by (cases "to_hiragana self word") (simp_all add: kana_conversions_def)

lemma kana_conversions_other:
  assumes kc: "kana_conversions self word [] = Inr kana"
      and "\<not> is_romaji word" and "\<not> is_hiragana word" and "\<not> is_katakana word"
  shows "kana = []"
  using assms by (simp add: kana_conversions_def)

text \<open>
  C4, as amended. The list that the generator returns is, in this order: the original
  term; its root form, appended only if it differs from the original term; the kana
  conversions; the stems of the suffix loop. The kana conversions are, for a romaji
  term, the hiragana and the katakana form and then the root form of each, appended only
  if it differs from the form it was taken from; for a hiragana term the katakana form;
  for a katakana term the hiragana form; for any other term nothing. The converted
  forms and the stems are appended without any comparison, and each root form is
  compared with the one term it was taken from, never with the terms collected so far.
\<close>

theorem root_steps_compare_with_own_source:
  assumes "get_fallback_terms self word = Inr terms"
  shows "\<exists>root kana. get_root_form self word = Inr root
           \<and> kana_conversions self word [] = Inr kana
           \<and> terms = [word] @ (if root \<noteq> word then [root] else []) @ kana @ stems word suffixes
           \<and> (is_romaji word \<longrightarrow>
                (\<exists>h k hr kr. to_hiragana self word = Inr h \<and> to_katakana self word = Inr k
                   \<and> get_root_form self h = Inr hr \<and> get_root_form self k = Inr kr
                   \<and> kana = [h, k] @ (if hr \<noteq> h then [hr] else [])
                                    @ (if kr \<noteq> k then [kr] else [])))
           \<and> (\<not> is_romaji word \<and> is_hiragana word \<longrightarrow>
                (\<exists>k. to_katakana self word = Inr k \<and> kana = [k]))
           \<and> (\<not> is_romaji word \<and> \<not> is_hiragana word \<and> is_katakana word \<longrightarrow>
                (\<exists>h. to_hiragana self word = Inr h \<and> kana = [h]))
           \<and> (\<not> is_romaji word \<and> \<not> is_hiragana word \<and> \<not> is_katakana word \<longrightarrow>
                kana = [])"
proof -
  from assms obtain root kept where
    r: "get_root_form self word = Inr root" and
    k: "kana_conversions self word (if root \<noteq> word then [word, root] else [word]) = Inr kept"
    and t: "terms = kept @ stems word suffixes"
    by (rule get_fallback_terms_Inr)
  from k obtain kana where
    k0: "kana_conversions self word [] = Inr kana" and
    kept: "kept = (if root \<noteq> word then [word, root] else [word]) @ kana"
    by (subst (asm) kana_conversions_acc) (auto split: sum.splits)
  from t kept have shape:
    "terms = [word] @ (if root \<noteq> word then [root] else []) @ kana @ stems word suffixes"
    by simp
  have rom: "is_romaji word \<longrightarrow>
                (\<exists>h k hr kr. to_hiragana self word = Inr h \<and> to_katakana self word = Inr k
                   \<and> get_root_form self h = Inr hr \<and> get_root_form self k = Inr kr
                   \<and> kana = [h, k] @ (if hr \<noteq> h then [hr] else [])
                                    @ (if kr \<noteq> k then [kr] else []))"
    using kana_conversions_romaji [OF k0] by (rule impI)
  have hir: "\<not> is_romaji word \<and> is_hiragana word \<longrightarrow>
                (\<exists>k. to_katakana self word = Inr k \<and> kana = [k])"
    using kana_conversions_hiragana [OF k0] by blast
  have kat: "\<not> is_romaji word \<and> \<not> is_hiragana word \<and> is_katakana word \<longrightarrow>
                (\<exists>h. to_hiragana self word = Inr h \<and> kana = [h])"
    using kana_conversions_katakana [OF k0] by blast
  have oth: "\<not> is_romaji word \<and> \<not> is_hiragana word \<and> \<not> is_katakana word \<longrightarrow> kana = []"
    using kana_conversions_other [OF k0] by blast
  from r k0 shape rom hir kat oth show ?thesis
    by (intro exI [of _ root] exI [of _ kana] conjI)
qed

theorem root_steps_compare_with_own_source_witness:
  "(get_fallback_terms iku_generator itta
      = Inr [itta, iku, [0x30a4, 0x30c3, 0x30bf], [0x3044, 0x3063]]
    \<and> \<not> is_romaji itta \<and> is_hiragana itta
    \<and> (\<exists>root k. get_root_form iku_generator itta = Inr root \<and> root \<noteq> itta
          \<and> to_katakana iku_generator itta = Inr k
          \<and> [itta, iku, [0x30a4, 0x30c3, 0x30bf], [0x3044, 0x3063]]
               = [itta] @ [root] @ [k] @ stems itta suffixes))
   \<and> (get_fallback_terms iku_generator katakana_word
      = Inr [katakana_word, [0x304b, 0x305f, 0x304b, 0x306a]]
    \<and> \<not> is_romaji katakana_word \<and> \<not> is_hiragana katakana_word \<and> is_katakana katakana_word
    \<and> (\<exists>h. to_hiragana iku_generator katakana_word = Inr h
          \<and> [katakana_word, [0x304b, 0x305f, 0x304b, 0x306a]]
               = [katakana_word] @ [h] @ stems katakana_word suffixes))
   \<and> (get_fallback_terms iku_generator romaji_iku = Inr [romaji_iku, iku, [0x30a4, 0x30af]]
    \<and> is_romaji romaji_iku
    \<and> (\<exists>h k. to_hiragana iku_generator romaji_iku = Inr h
          \<and> to_katakana iku_generator romaji_iku = Inr k
          \<and> get_root_form iku_generator h = Inr h \<and> get_root_form iku_generator k = Inr k
          \<and> [romaji_iku, iku, [0x30a4, 0x30af]]
               = [romaji_iku] @ [h, k] @ stems romaji_iku suffixes))
   \<and> (get_fallback_terms iku_generator shizuka_da = Inr [shizuka_da, shizuka]
    \<and> \<not> is_romaji shizuka_da \<and> \<not> is_hiragana shizuka_da \<and> \<not> is_katakana shizuka_da
    \<and> [shizuka_da, shizuka] = [shizuka_da] @ stems shizuka_da suffixes)"
proof -
  have h1: "get_fallback_terms iku_generator itta
              = Inr [itta, iku, [0x30a4, 0x30c3, 0x30bf], [0x3044, 0x3063]]"
    by (simp add: iku_defs)
  have h2: "get_fallback_terms iku_generator katakana_word
              = Inr [katakana_word, [0x304b, 0x305f, 0x304b, 0x306a]]"
    by (simp add: iku_defs)
  have h3: "get_fallback_terms iku_generator romaji_iku = Inr [romaji_iku, iku, [0x30a4, 0x30af]]"
    by (simp add: iku_defs)
  have h4: "get_fallback_terms iku_generator shizuka_da = Inr [shizuka_da, shizuka]"
    by (simp add: iku_defs)
  have k1: "\<not> is_romaji itta \<and> is_hiragana itta"
    by (simp add: iku_defs)
  have k2: "\<not> is_romaji katakana_word \<and> \<not> is_hiragana katakana_word \<and> is_katakana katakana_word"
    by (simp add: iku_defs)
  have k3: "is_romaji romaji_iku"
    by (simp add: iku_defs)
  have k4: "\<not> is_romaji shizuka_da \<and> \<not> is_hiragana shizuka_da \<and> \<not> is_katakana shizuka_da"
    by (simp add: iku_defs)
  have r1: "get_root_form iku_generator itta = Inr iku \<and> iku \<noteq> itta"
    by (simp add: iku_defs)
  have r2: "get_root_form iku_generator katakana_word = Inr katakana_word"
    by (simp add: iku_defs)
  have r3: "get_root_form iku_generator romaji_iku = Inr romaji_iku"
    by (simp add: iku_defs)
  have r4: "get_root_form iku_generator shizuka_da = Inr shizuka_da"
    by (simp add: iku_defs)
  have p1: "\<exists>root k. get_root_form iku_generator itta = Inr root \<and> root \<noteq> itta
          \<and> to_katakana iku_generator itta = Inr k
          \<and> [itta, iku, [0x30a4, 0x30c3, 0x30bf], [0x3044, 0x3063]]
               = [itta] @ [root] @ [k] @ stems itta suffixes"
    using root_steps_compare_with_own_source [OF h1] k1 r1 by auto
  have p2: "\<exists>h. to_hiragana iku_generator katakana_word = Inr h
          \<and> [katakana_word, [0x304b, 0x305f, 0x304b, 0x306a]]
               = [katakana_word] @ [h] @ stems katakana_word suffixes"
    using root_steps_compare_with_own_source [OF h2] k2 r2 by auto
  have p3: "\<exists>h k. to_hiragana iku_generator romaji_iku = Inr h
          \<and> to_katakana iku_generator romaji_iku = Inr k
          \<and> get_root_form iku_generator h = Inr h \<and> get_root_form iku_generator k = Inr k
          \<and> [romaji_iku, iku, [0x30a4, 0x30af]]
               = [romaji_iku] @ [h, k] @ stems romaji_iku suffixes"
    using root_steps_compare_with_own_source [OF h3] k3 r3 by (auto split: if_splits)
  have p4: "[shizuka_da, shizuka] = [shizuka_da] @ stems shizuka_da suffixes"
    using root_steps_compare_with_own_source [OF h4] k4 r4 by auto
  from h1 k1 p1 h2 k2 p2 h3 k3 p3 h4 k4 p4 show ?thesis
    by blast
qed

section \<open>Probing the dictionaries\<close>

lemma probe_dictionaries_skip:
  "\<forall>d\<in>set before. search d term = Inr [] \<Longrightarrow>
     probe_dictionaries (before @ rest) term = probe_dictionaries rest term"
  by (induction before) auto

lemma probe_dictionaries_none:
  "\<forall>d\<in>set dictionaries. search d term = Inr [] \<Longrightarrow>
     probe_dictionaries dictionaries term = Inr None"
  using probe_dictionaries_skip [of dictionaries "term" "[]"] by simp

lemma probe_terms_skip:
  "\<forall>t\<in>set before. \<forall>d\<in>set dictionaries. search d t = Inr [] \<Longrightarrow>
     probe_terms dictionaries (before @ rest) = probe_terms dictionaries rest"
  by (induction before) (auto simp: probe_dictionaries_none)

lemma probe_terms_hit:
  assumes "\<forall>t\<in>set tpre. \<forall>d\<in>set (dpre @ d # dpost). search d t = Inr []"
      and "\<forall>d'\<in>set dpre. search d' t = Inr []"
      and "search d t = Inr result" and "result \<noteq> []"
  shows "probe_terms (dpre @ d # dpost) (tpre @ t # tpost) = Inr (Some result)"
  using assms by (simp add: probe_terms_skip probe_dictionaries_skip)

lemma probe_terms_raise:
  assumes "\<forall>t\<in>set tpre. \<forall>d\<in>set (dpre @ d # dpost). search d t = Inr []"
      and "\<forall>d'\<in>set dpre. search d' t = Inr []"
      and "search d t = Inl e"
  shows "probe_terms (dpre @ d # dpost) (tpre @ t # tpost) = Inl e"
  using assms by (simp add: probe_terms_skip probe_dictionaries_skip)

lemma probe_terms_none:
  "\<forall>t\<in>set terms. \<forall>d\<in>set dictionaries. search d t = Inr [] \<Longrightarrow>
     probe_terms dictionaries terms = Inr None"
  using probe_terms_skip [of terms dictionaries "[]"] by simp

text \<open>
  C3. The terms are probed in the order of the list and, for each term, the
  dictionaries in the order of their list. When every probe before the probe of term
  \<open>t\<close> in dictionary \<open>d\<close> returned an empty result and this probe returns a result that
  is not empty, the lookup returns that result (\<^verbatim>\<open>LanguageProfile\<close>: its first entry),
  whatever the later terms are and whatever the later dictionaries hold: a dictionary
  after \<open>d\<close> that also has entries for \<open>t\<close> is not asked.
\<close>

theorem first_match_wins:
  assumes "fallback word = Inr (tpre @ t # tpost)"
      and "dictionaries = dpre @ d # dpost"
      and "\<forall>t'\<in>set tpre. \<forall>d'\<in>set dictionaries. search d' t' = Inr []"
      and "\<forall>d'\<in>set dpre. search d' t = Inr []"
      and "search d t = Inr (first # others)"
  shows "get_word_info fallback dictionaries word = Inr (Found (first # others))
       \<and> profile_get_word_info fallback dictionaries word = Inr (Found first)"
  using assms probe_terms_hit [of tpre dpre d dpost t "first # others" tpost]
  by (simp add: get_word_info_def profile_get_word_info_def)

theorem first_match_wins_witness:
  "get_word_info (get_fallback_terms (shift_generator sample_sudachi))
       [empty_dictionary, dictionary_a, dictionary_b] hashitta = Inr (Found [entry_a])
   \<and> profile_get_word_info (get_fallback_terms (shift_generator sample_sudachi))
       [empty_dictionary, dictionary_a, dictionary_b] hashitta = Inr (Found entry_a)
   \<and> search dictionary_b hashiru = Inr [entry_b]"
proof -
  have h1: "get_fallback_terms (shift_generator sample_sudachi) hashitta
              = Inr ([hashitta] @ hashiru # [[0x8d70, 0x3063]])"
    by (simp add: eval_defs)
  have h2: "[empty_dictionary, dictionary_a, dictionary_b]
              = [empty_dictionary] @ dictionary_a # [dictionary_b]"
    by simp
  have h3: "\<forall>t'\<in>set [hashitta]. \<forall>d'\<in>set [empty_dictionary, dictionary_a, dictionary_b].
              search d' t' = Inr []"
    by (simp add: dictionary_defs hashitta_def hashiru_def shizuka_def)
  have h4: "\<forall>d'\<in>set [empty_dictionary]. search d' hashiru = Inr []"
    by (simp add: dictionary_defs)
  have h5: "search dictionary_a hashiru = Inr (entry_a # [])"
    by (simp add: dictionary_defs)
  have h6: "search dictionary_b hashiru = Inr [entry_b]"
    by (simp add: dictionary_defs)
  show ?thesis using first_match_wins [where fallback = "get_fallback_terms (shift_generator sample_sudachi)" and word = hashitta, OF h1 h2 h3 h4 h5] h6 by simp
qed

text \<open>
  C9, as amended. A dictionary that raises on \<^verbatim>\<open>search\<close> ends the lookup: when every
  probe before it returned an empty result, the lookup returns the error, and neither
  the later dictionaries nor the later terms are probed.
\<close>

theorem source_error_propagates:
  assumes "fallback word = Inr (tpre @ t # tpost)"
      and "dictionaries = dpre @ d # dpost"
      and "\<forall>t'\<in>set tpre. \<forall>d'\<in>set dictionaries. search d' t' = Inr []"
      and "\<forall>d'\<in>set dpre. search d' t = Inr []"
      and "search d t = Inl e"
  shows "get_word_info fallback dictionaries word = Inl e
       \<and> profile_get_word_info fallback dictionaries word = Inl e"
  using assms probe_terms_raise [of tpre dpre d dpost t e tpost]
  by (simp add: get_word_info_def profile_get_word_info_def)

theorem source_error_propagates_witness:
  "get_word_info (get_fallback_terms (shift_generator sample_sudachi))
       [empty_dictionary, broken_dictionary, dictionary_a] hashitta = Inl SourceError
   \<and> profile_get_word_info (get_fallback_terms (shift_generator sample_sudachi))
       [empty_dictionary, broken_dictionary, dictionary_a] hashitta = Inl SourceError"
proof -
  have h1: "get_fallback_terms (shift_generator sample_sudachi) hashitta
              = Inr ([] @ hashitta # [hashiru, [0x8d70, 0x3063]])"
    by (simp add: eval_defs)
  have h2: "[empty_dictionary, broken_dictionary, dictionary_a]
              = [empty_dictionary] @ broken_dictionary # [dictionary_a]"
    by simp
  have h3: "\<forall>t'\<in>set []. \<forall>d'\<in>set [empty_dictionary, broken_dictionary, dictionary_a].
              search d' t' = Inr []"
    by simp
  have h4: "\<forall>d'\<in>set [empty_dictionary]. search d' hashitta = Inr []"
    by (simp add: dictionary_defs)
  have h5: "search broken_dictionary hashitta = Inl SourceError"
    by (simp add: dictionary_defs)
  show ?thesis using source_error_propagates [where fallback = "get_fallback_terms (shift_generator sample_sudachi)" and word = hashitta, OF h1 h2 h3 h4 h5] by simp
qed

text \<open>
  C9 as stated fails: with a dictionary that raises in front of one that has the root
  form hashiru, the lookup of hashitta ends with the error; without the raising
  dictionary it finds the entry.
\<close>

theorem source_error_counterexample:
  "japanese_get_word_info (shift_generator sample_sudachi) [broken_dictionary, dictionary_a] hashitta
     = Inl SourceError
   \<and> japanese_get_word_info (shift_generator sample_sudachi) [dictionary_a] hashitta
     = Inr (Found [entry_a])"
  by (simp add: japanese_get_word_info_def get_word_info_def eval_defs dictionary_defs)

text \<open>
  C1, as amended. When the generator returns its terms and every search, of every
  dictionary for every one of these terms, returns an empty result (none raises), the
  lookup returns \<^verbatim>\<open>WordInfo(word=word, definition="Not found")\<close>:
  the original term and a fixed text, without the list of the terms that were tried.
\<close>

theorem not_found_is_word_info:
  assumes "fallback word = Inr terms"
      and "\<forall>t\<in>set terms. \<forall>d\<in>set dictionaries. search d t = Inr []"
  shows "get_word_info fallback dictionaries word
           = Inr (Info \<lparr>info_word = word, info_definition = ''Not found''\<rparr>)
       \<and> profile_get_word_info fallback dictionaries word
           = Inr (Info \<lparr>info_word = word, info_definition = ''Not found''\<rparr>)"
  using assms probe_terms_none [of terms dictionaries]
  by (simp add: get_word_info_def profile_get_word_info_def)

theorem not_found_is_word_info_witness:
  "get_word_info (get_fallback_terms (shift_generator sample_sudachi))
       [empty_dictionary, dictionary_b] shizuka_da
     = Inr (Info \<lparr>info_word = shizuka_da, info_definition = ''Not found''\<rparr>)
   \<and> profile_get_word_info (get_fallback_terms (shift_generator sample_sudachi))
       [empty_dictionary, dictionary_b] shizuka_da
     = Inr (Info \<lparr>info_word = shizuka_da, info_definition = ''Not found''\<rparr>)"
proof -
  have h1: "get_fallback_terms (shift_generator sample_sudachi) shizuka_da
              = Inr [shizuka_da, shizuka, shizuka]"
    by (simp add: eval_defs)
  have h2: "\<forall>t\<in>set [shizuka_da, shizuka, shizuka]. \<forall>d\<in>set [empty_dictionary, dictionary_b].
              search d t = Inr []"
    by (simp add: dictionary_defs hashitta_def hashiru_def shizuka_def shizuka_da_def)
  show ?thesis using not_found_is_word_info [where fallback = "get_fallback_terms (shift_generator sample_sudachi)" and word = shizuka_da, OF h1 h2] by simp
qed

text \<open>
  C1 as stated fails: two generators try different terms for shizuka-da, and both
  lookups return the same value, which holds the original term only.
\<close>

theorem attempted_terms_lost_counterexample:
  "get_fallback_terms (shift_generator sample_sudachi) shizuka_da = Inr [shizuka_da, shizuka, shizuka]
   \<and> get_fallback_terms (shift_generator silent_sudachi) shizuka_da = Inr [shizuka_da, shizuka]
   \<and> japanese_get_word_info (shift_generator sample_sudachi) [empty_dictionary] shizuka_da
       = Inr (Info \<lparr>info_word = shizuka_da, info_definition = ''Not found''\<rparr>)
   \<and> japanese_get_word_info (shift_generator silent_sudachi) [empty_dictionary] shizuka_da
       = Inr (Info \<lparr>info_word = shizuka_da, info_definition = ''Not found''\<rparr>)"
  by (simp add: japanese_get_word_info_def get_word_info_def eval_defs dictionary_defs)

section \<open>The kana shift\<close>

lemma k2h_idem: "katakana_to_hiragana (katakana_to_hiragana x) = katakana_to_hiragana x"
  unfolding katakana_to_hiragana_def map_map
  by (rule map_cong [OF refl]) auto

lemma k2h_h2k_k2h:
  "katakana_to_hiragana (hiragana_to_katakana (katakana_to_hiragana x)) = katakana_to_hiragana x"
  unfolding katakana_to_hiragana_def hiragana_to_katakana_def map_map
  by (rule map_cong [OF refl]) auto

lemma h2k_k2h: "is_katakana x \<Longrightarrow> hiragana_to_katakana (katakana_to_hiragana x) = x"
  unfolding katakana_to_hiragana_def hiragana_to_katakana_def map_map
  by (rule map_idI) (auto simp: is_katakana_def list_all_iff)

text \<open>
  C5. With the two spec-modelled shifts as converters, for every string \<open>x\<close> that
  \<^verbatim>\<open>is_katakana\<close> accepts: \<^verbatim>\<open>to_katakana(to_hiragana(x))\<close> is \<^verbatim>\<open>to_katakana(x)\<close>,
  \<^verbatim>\<open>to_hiragana(to_katakana(to_hiragana(x)))\<close> is \<^verbatim>\<open>to_hiragana(x)\<close>, and the shift
  is reversed exactly: \<^verbatim>\<open>to_katakana(x)\<close> is \<open>x\<close> again. No call raises.
\<close>

theorem kana_shift_round_trip:
  assumes "is_katakana x"
  shows "\<exists>h k. to_hiragana (shift_generator tokenize) x = Inr h
           \<and> to_katakana (shift_generator tokenize) h = Inr k
           \<and> to_katakana (shift_generator tokenize) x = Inr k
           \<and> to_hiragana (shift_generator tokenize) k = Inr h
           \<and> k = x"
  using h2k_k2h [OF assms]
  by (simp add: to_hiragana_def to_katakana_def shift_generator_def k2h_idem)

theorem kana_shift_round_trip_witness:
  "is_katakana [0x30ab, 0x30bf, 0x30ab, 0x30ca]
   \<and> to_hiragana (shift_generator silent_sudachi) [0x30ab, 0x30bf, 0x30ab, 0x30ca]
        = Inr [0x304b, 0x305f, 0x304b, 0x306a]
   \<and> (\<exists>h k. to_hiragana (shift_generator silent_sudachi) [0x30ab, 0x30bf, 0x30ab, 0x30ca] = Inr h
           \<and> to_katakana (shift_generator silent_sudachi) h = Inr k
           \<and> to_katakana (shift_generator silent_sudachi) [0x30ab, 0x30bf, 0x30ab, 0x30ca] = Inr k
           \<and> to_hiragana (shift_generator silent_sudachi) k = Inr h
           \<and> k = [0x30ab, 0x30bf, 0x30ab, 0x30ca])"
proof -
  have h: "is_katakana [0x30ab, 0x30bf, 0x30ab, 0x30ca]"
    by (simp add: is_katakana_def)
  have e: "to_hiragana (shift_generator silent_sudachi) [0x30ab, 0x30bf, 0x30ab, 0x30ca]
        = Inr [0x304b, 0x305f, 0x304b, 0x306a]"
    by (simp add: eval_defs)
  from h e kana_shift_round_trip [OF h, of silent_sudachi] show ?thesis
    by (intro conjI)
qed

section \<open>The script predicates\<close>

lemma is_romaji_iff: "is_romaji txt \<longleftrightarrow> (\<forall>c\<in>set txt. c < 128)"
  by (simp add: is_romaji_def list_all_iff)

lemma is_hiragana_iff:
  "is_hiragana txt \<longleftrightarrow> (\<forall>c\<in>set txt. 127 < c \<longrightarrow> 0x3041 \<le> c \<and> c \<le> 0x309f)"
  by (auto simp: is_hiragana_def list_all_iff)

lemma is_katakana_iff:
  "is_katakana txt \<longleftrightarrow> (\<forall>c\<in>set txt. 127 < c \<longrightarrow> 0x30a1 \<le> c \<and> c \<le> 0x30ff)"
  by (auto simp: is_katakana_def list_all_iff)

lemma predicates_overlap:
  "(if \<exists>c\<in>set txt. 127 < c
    then \<not> is_romaji txt \<and> \<not> (is_hiragana txt \<and> is_katakana txt)
    else is_romaji txt \<and> is_hiragana txt \<and> is_katakana txt)"
proof (cases "\<exists>c\<in>set txt. 127 < c")
  case True
  then obtain c where c: "c \<in> set txt" "127 < c" by blast
  then have "\<not> c < 128" by simp
  with c have "\<not> is_romaji txt"
    unfolding is_romaji_iff by blast
  moreover have "\<not> (is_hiragana txt \<and> is_katakana txt)"
  proof
    assume "is_hiragana txt \<and> is_katakana txt"
    with c have "c \<le> 0x309f" and "0x30a1 \<le> c"
      unfolding is_hiragana_iff is_katakana_iff by blast+
    then show False by simp
  qed
  ultimately show ?thesis using True by simp
next
  case False
  then have "\<forall>c\<in>set txt. \<not> 127 < c" by blast
  then have "is_romaji txt \<and> is_hiragana txt \<and> is_katakana txt"
    unfolding is_romaji_iff is_hiragana_iff is_katakana_iff by auto
  with False show ?thesis by simp
qed

lemma outside_both_blocks:
  assumes "c \<in> set txt" and "127 < c"
      and "\<not> (0x3041 \<le> c \<and> c \<le> 0x309f)" and "\<not> (0x30a1 \<le> c \<and> c \<le> 0x30ff)"
  shows "\<not> is_hiragana txt \<and> \<not> is_katakana txt"
  using assms unfolding is_hiragana_iff is_katakana_iff by blast

lemma both_blocks:
  assumes "h \<in> set txt" and "0x3041 \<le> h \<and> h \<le> 0x309f"
      and "k \<in> set txt" and "0x30a1 \<le> k \<and> k \<le> 0x30ff"
  shows "\<not> is_hiragana txt \<and> \<not> is_katakana txt"
proof
  from assms(3,4) have "k \<in> set txt \<and> 127 < k \<and> \<not> (0x3041 \<le> k \<and> k \<le> 0x309f)" by simp
  then show "\<not> is_hiragana txt" unfolding is_hiragana_iff by blast
  from assms(1,2) have "h \<in> set txt \<and> 127 < h \<and> \<not> (0x30a1 \<le> h \<and> h \<le> 0x30ff)" by simp
  then show "\<not> is_katakana txt" unfolding is_katakana_iff by blast
qed

text \<open>
  C6, as amended. There are three predicates and no classifier. Each predicate holds
  exactly when every character it looks at lies in its block: \<^verbatim>\<open>is_romaji\<close> looks at
  all characters (block: below 128), \<^verbatim>\<open>is_hiragana\<close> (U+3041 to U+309F) and
  \<^verbatim>\<open>is_katakana\<close> (U+30A1 to U+30FF) look at the characters beyond ASCII only. On a
  string with at least one character beyond ASCII, \<^verbatim>\<open>is_romaji\<close> is false and
  \<^verbatim>\<open>is_hiragana\<close> and \<^verbatim>\<open>is_katakana\<close> do not hold together; neither holds when such a
  character lies outside both kana blocks (kanji) or when the string has characters of
  both kana blocks (mixed). On a string of ASCII characters only, the empty string
  included, all three predicates hold, and none of them raises.
\<close>

theorem script_predicates:
  "(is_romaji txt \<longleftrightarrow> (\<forall>c\<in>set txt. c < 128))
   \<and> (is_hiragana txt \<longleftrightarrow> (\<forall>c\<in>set txt. 127 < c \<longrightarrow> 0x3041 \<le> c \<and> c \<le> 0x309f))
   \<and> (is_katakana txt \<longleftrightarrow> (\<forall>c\<in>set txt. 127 < c \<longrightarrow> 0x30a1 \<le> c \<and> c \<le> 0x30ff))
   \<and> (if \<exists>c\<in>set txt. 127 < c
       then \<not> is_romaji txt \<and> \<not> (is_hiragana txt \<and> is_katakana txt)
       else is_romaji txt \<and> is_hiragana txt \<and> is_katakana txt)
   \<and> ((\<exists>c\<in>set txt. 127 < c \<and> \<not> (0x3041 \<le> c \<and> c \<le> 0x309f) \<and> \<not> (0x30a1 \<le> c \<and> c \<le> 0x30ff))
        \<longrightarrow> \<not> is_hiragana txt \<and> \<not> is_katakana txt)
   \<and> ((\<exists>h\<in>set txt. 0x3041 \<le> h \<and> h \<le> 0x309f) \<and> (\<exists>k\<in>set txt. 0x30a1 \<le> k \<and> k \<le> 0x30ff)
        \<longrightarrow> \<not> is_hiragana txt \<and> \<not> is_katakana txt)"
proof (intro conjI)
  show "is_romaji txt \<longleftrightarrow> (\<forall>c\<in>set txt. c < 128)"
    by (rule is_romaji_iff)
  show "is_hiragana txt \<longleftrightarrow> (\<forall>c\<in>set txt. 127 < c \<longrightarrow> 0x3041 \<le> c \<and> c \<le> 0x309f)"
    by (rule is_hiragana_iff)
  show "is_katakana txt \<longleftrightarrow> (\<forall>c\<in>set txt. 127 < c \<longrightarrow> 0x30a1 \<le> c \<and> c \<le> 0x30ff)"
    by (rule is_katakana_iff)
  show "if \<exists>c\<in>set txt. 127 < c
       then \<not> is_romaji txt \<and> \<not> (is_hiragana txt \<and> is_katakana txt)
       else is_romaji txt \<and> is_hiragana txt \<and> is_katakana txt"
    by (rule predicates_overlap)
  show "(\<exists>c\<in>set txt. 127 < c \<and> \<not> (0x3041 \<le> c \<and> c \<le> 0x309f) \<and> \<not> (0x30a1 \<le> c \<and> c \<le> 0x30ff))
        \<longrightarrow> \<not> is_hiragana txt \<and> \<not> is_katakana txt"
    by (blast dest: outside_both_blocks)
  show "(\<exists>h\<in>set txt. 0x3041 \<le> h \<and> h \<le> 0x309f) \<and> (\<exists>k\<in>set txt. 0x30a1 \<le> k \<and> k \<le> 0x30ff)
        \<longrightarrow> \<not> is_hiragana txt \<and> \<not> is_katakana txt"
    by (blast dest: both_blocks)
qed

theorem script_predicates_witness:
  "(is_hiragana [0x3044, 0x3063, 0x305f] \<and> \<not> is_katakana [0x3044, 0x3063, 0x305f]
      \<and> \<not> is_romaji [0x3044, 0x3063, 0x305f])
   \<and> (is_katakana [0x30ab, 0x30bf, 0x30ab, 0x30ca] \<and> \<not> is_hiragana [0x30ab, 0x30bf, 0x30ab, 0x30ca]
      \<and> \<not> is_romaji [0x30ab, 0x30bf, 0x30ab, 0x30ca])
   \<and> (is_romaji [0x6f, 0x6b] \<and> is_hiragana [0x6f, 0x6b] \<and> is_katakana [0x6f, 0x6b])
   \<and> (\<not> is_romaji [0x8d70, 0x3063, 0x305f] \<and> \<not> is_hiragana [0x8d70, 0x3063, 0x305f]
      \<and> \<not> is_katakana [0x8d70, 0x3063, 0x305f])
   \<and> (\<not> is_romaji [0x3042, 0x30a2] \<and> \<not> is_hiragana [0x3042, 0x30a2]
      \<and> \<not> is_katakana [0x3042, 0x30a2])"
  using script_predicates [of "[0x3044, 0x3063, 0x305f]"]
        script_predicates [of "[0x30ab, 0x30bf, 0x30ab, 0x30ca]"]
        script_predicates [of "[0x6f, 0x6b]"]
        script_predicates [of "[0x8d70, 0x3063, 0x305f]"]
        script_predicates [of "[0x3042, 0x30a2]"]
  by simp

text \<open>
  C6 as stated fails: the term "ok" and the empty string satisfy all three predicates,
  and hashitta (a kanji followed by hiragana) satisfies none.
\<close>

theorem script_overlap_counterexample:
  "is_romaji [0x6f, 0x6b] \<and> is_hiragana [0x6f, 0x6b] \<and> is_katakana [0x6f, 0x6b]
   \<and> is_romaji [] \<and> is_hiragana [] \<and> is_katakana []
   \<and> \<not> is_romaji hashitta \<and> \<not> is_hiragana hashitta \<and> \<not> is_katakana hashitta"
  by (simp add: is_romaji_def is_hiragana_def is_katakana_def hashitta_def)

section \<open>A failing analyzer\<close>

text \<open>
  C7, as amended. When the tokenizer returns no token, \<^verbatim>\<open>get_root_form\<close> returns the
  word itself. When the tokenizer raises, nothing catches the exception:
  \<^verbatim>\<open>get_root_form\<close>, \<^verbatim>\<open>get_fallback_terms\<close> and \<^verbatim>\<open>get_word_info\<close> end with that error.
\<close>

theorem analyzer_failure:
  "(sudachi self word = Inr [] \<longrightarrow> get_root_form self word = Inr word)
   \<and> (sudachi self word = Inl e \<longrightarrow>
        get_root_form self word = Inl e
        \<and> get_fallback_terms self word = Inl e
        \<and> japanese_get_word_info self dictionaries word = Inl e)"
  by (simp add: get_root_form_def get_fallback_terms_def japanese_get_word_info_def
      get_word_info_def)

theorem analyzer_failure_witness:
  "sudachi (shift_generator silent_sudachi) hashitta = Inr []
   \<and> get_root_form (shift_generator silent_sudachi) hashitta = Inr hashitta
   \<and> sudachi (shift_generator failing_sudachi) hashitta = Inl AnalyzerError
   \<and> get_root_form (shift_generator failing_sudachi) hashitta = Inl AnalyzerError
   \<and> get_fallback_terms (shift_generator failing_sudachi) hashitta = Inl AnalyzerError
   \<and> japanese_get_word_info (shift_generator failing_sudachi) [dictionary_a] hashitta
       = Inl AnalyzerError"
proof -
  have a: "sudachi (shift_generator silent_sudachi) hashitta = Inr []"
    by (simp add: shift_generator_def silent_sudachi_def)
  have b: "sudachi (shift_generator failing_sudachi) hashitta = Inl AnalyzerError"
    by (simp add: shift_generator_def failing_sudachi_def)
  show ?thesis
    using a b
      analyzer_failure [of "shift_generator silent_sudachi" hashitta AnalyzerError "[dictionary_a]"]
      analyzer_failure [of "shift_generator failing_sudachi" hashitta AnalyzerError "[dictionary_a]"]
    by simp
qed

text \<open>
  C7 as stated fails: with a tokenizer that raises, the lookup of hashitta ends with the
  error although the dictionary has an entry for hashitta itself.
\<close>

theorem analyzer_failure_counterexample:
  "get_root_form (shift_generator failing_sudachi) hashitta = Inl AnalyzerError
   \<and> japanese_get_word_info (shift_generator failing_sudachi)
        [table_dictionary [(hashitta, [entry_a])]] hashitta = Inl AnalyzerError
   \<and> search (table_dictionary [(hashitta, [entry_a])]) hashitta = Inr [entry_a]"
  by (simp add: japanese_get_word_info_def get_word_info_def eval_defs dictionary_defs)

section \<open>The rule of the suffix loop\<close>

lemma stems_ge2:
  "stems word sfx = map (\<lambda>s. slice_to_minus word (length s))
       (filter (\<lambda>s. endswith word s \<and> 2 \<le> length word - length s) sfx)"
proof -
  have "(\<lambda>s. endswith word s \<and> length word > length s + 1)
      = (\<lambda>s. endswith word s \<and> 2 \<le> length word - length s)"
    by (rule ext) arith
  then show ?thesis by (simp only: stems_def)
qed

lemma endswith_split:
  "endswith word s \<Longrightarrow> s \<noteq> [] \<Longrightarrow> slice_to_minus word (length s) @ s = word"
  using append_take_drop_id [of "length word - length s" word]
  by (auto simp: endswith_def slice_to_minus_def)

text \<open>
  C8. The suffix loop appends, in the order of the list, the stem of every suffix that
  the word ends with and that leaves a stem of length at least 2, and nothing else. The
  list has its longest suffixes first. The stem is the word without the suffix. At
  most two stems are appended (indeed at most one, by \<open>one_match\<close>).
\<close>

theorem suffix_stripping_rule:
  "strip_suffixes word suffixes terms
     = terms @ map (\<lambda>s. slice_to_minus word (length s))
                 (filter (\<lambda>s. endswith word s \<and> 2 \<le> length word - length s) suffixes)
   \<and> sorted (rev (map length suffixes))
   \<and> (\<forall>s\<in>set suffixes. endswith word s \<longrightarrow>
         slice_to_minus word (length s) @ s = word
         \<and> length (slice_to_minus word (length s)) = length word - length s)
   \<and> length (filter (\<lambda>s. endswith word s \<and> 2 \<le> length word - length s) suffixes) \<le> 2"
proof (intro conjI ballI impI)
  show "strip_suffixes word suffixes terms
     = terms @ map (\<lambda>s. slice_to_minus word (length s))
                 (filter (\<lambda>s. endswith word s \<and> 2 \<le> length word - length s) suffixes)"
    by (simp only: strip_suffixes_stems stems_ge2)
  show "sorted (rev (map length suffixes))"
    by (simp add: suffixes_def)
  show "length (filter (\<lambda>s. endswith word s \<and> 2 \<le> length word - length s) suffixes) \<le> 2"
    using filter_conj_le [of "endswith word" _ suffixes] one_match [of word]
    by (meson le_trans one_le_numeral)
next
  fix s assume s: "s \<in> set suffixes" and e: "endswith word s"
  from s have "s \<noteq> []" by (auto simp: suffixes_def)
  with e show "slice_to_minus word (length s) @ s = word"
    by (rule endswith_split[rotated -1, rotated])
  from \<open>s \<noteq> []\<close> e show "length (slice_to_minus word (length s)) = length word - length s"
    by (simp add: slice_to_minus_def endswith_def)
qed

theorem suffix_stripping_rule_witness:
  "strip_suffixes hashitta suffixes [hashitta] = [hashitta, [0x8d70, 0x3063]]
   \<and> endswith hashitta [0x305f]
   \<and> slice_to_minus hashitta (length [0x305f::nat]) @ [0x305f] = hashitta
   \<and> strip_suffixes [0x898b, 0x305f] suffixes [] = []"
  using suffix_stripping_rule [of hashitta "[hashitta]"]
        suffix_stripping_rule [of "[0x898b, 0x305f]" "[]"]
  by (simp add: hashitta_def suffixes_def endswith_def slice_to_minus_def)

end
